theory Spec2Isabelle
  imports Main "HOL-Library.AList" "HOL-Library.Word"
begin

section \<open>Values exchanged with the service\<close>

text \<open>
  A shallow embedding of \<^verbatim>\<open>src/remarkable.ts\<close>, the \<^verbatim>\<open>Remarkable\<close> client class.
  JavaScript values that may be \<^verbatim>\<open>undefined\<close> are options; a \<^verbatim>\<open>Buffer\<close> is a list of
  bytes; JSON request bodies are values of \<open>json\<close>, objects keeping their keys in
  insertion order.
\<close>

type_synonym bytes = "8 word list"

datatype json =
    JNumber int
  | JString string
  | JBoolean bool
  | JArray "json list"
  | JObject "(string \<times> json) list"

text \<open>Decimal rendering of an integer, as a template literal or \<^verbatim>\<open>JSON.stringify\<close> prints it.\<close>

fun digits :: "nat \<Rightarrow> string" where
  "digits n =
     (if n < 10 then [''0123456789'' ! n]
      else digits (n div 10) @ [''0123456789'' ! (n mod 10)])"

declare digits.simps [simp del]

definition show_int :: "int \<Rightarrow> string" where
  "show_int i = (if i < 0 then ''-'' @ digits (nat (- i)) else digits (nat i))"

definition quoted :: "string \<Rightarrow> string" where
  "quoted s = [CHR 0x22] @ s @ [CHR 0x22]"

text \<open>
  \<^verbatim>\<open>JSON.stringify\<close> on the values this file builds. Strings are printed between double
  quotes without escapes: the only strings ever printed are the literals of
  \<^verbatim>\<open>defaultPDFContent\<close>, which need none.
\<close>

fun JSON_stringify :: "json \<Rightarrow> string"
  and stringify_elements :: "json list \<Rightarrow> string"
  and stringify_members :: "(string \<times> json) list \<Rightarrow> string" where
  "JSON_stringify (JNumber n) = show_int n"
| "JSON_stringify (JString s) = quoted s"
| "JSON_stringify (JBoolean b) = (if b then ''true'' else ''false'')"
| "JSON_stringify (JArray xs) = ''['' @ stringify_elements xs @ '']''"
| "JSON_stringify (JObject kvs) = ''{'' @ stringify_members kvs @ ''}''"
| "stringify_elements [] = []"
| "stringify_elements [x] = JSON_stringify x"
| "stringify_elements (x # y # ys) = JSON_stringify x @ '','' @ stringify_elements (y # ys)"
| "stringify_members [] = []"
| "stringify_members [(k, v)] = quoted k @ '':'' @ JSON_stringify v"
| "stringify_members ((k, v) # kv # kvs) =
     quoted k @ '':'' @ JSON_stringify v @ '','' @ stringify_members (kv # kvs)"

text \<open>JavaScript truthiness of an optional string: \<^verbatim>\<open>undefined\<close> and \<^verbatim>\<open>''\<close> are falsy.\<close>

definition truthy :: "string option \<Rightarrow> bool" where
  "truthy x = (case x of None \<Rightarrow> False | Some v \<Rightarrow> v \<noteq> [])"

text \<open>The value of an optional string when it is truthy (\<^verbatim>\<open>if (x) return x\<close>).\<close>

definition if_truthy :: "string option \<Rightarrow> string option" where
  "if_truthy x = (case x of None \<Rightarrow> None | Some v \<Rightarrow> if v = [] then None else Some v)"

text \<open>An optional string inside a template literal: \<^verbatim>\<open>`${undefined}`\<close> is \<^verbatim>\<open>undefined\<close>.\<close>

definition template :: "string option \<Rightarrow> string" where
  "template x = (case x of None \<Rightarrow> ''undefined'' | Some v \<Rightarrow> v)"

subsection \<open>Requests and responses\<close>

datatype http_method = GET | PUT | POST | STREAM

datatype payload = NoBody | Json json | Raw bytes

text \<open>The data of an archive entry, as handed to \<^verbatim>\<open>JSZip.file\<close>: a string, an array or a buffer.\<close>

datatype zip_data = StringData string | ArrayData "nat list" | BufferData bytes

record request =
  meth :: http_method
  url :: string
  headers :: "(string \<times> string) list"
  body :: payload

text \<open>
  Modelled from the spec: the response types of \<^verbatim>\<open>./types\<close> (\<^verbatim>\<open>ReturnType\<close>,
  \<^verbatim>\<open>UploadRequestReturnType\<close>, \<^verbatim>\<open>ItemResponse\<close>), which are imported by the source but
  are not part of it. The wire contracts give the delete and finalize results as
  \<^verbatim>\<open>{ID, Success}\<close>, the upload-request result as \<^verbatim>\<open>{Success, BlobURLPut}\<close>, and an
  item record as identifier, display name, version and blob reference. A field that
  may be missing from a response is an option.
\<close>

record ReturnType =
  ID :: string
  Success :: bool

record UploadRequestReturnType = ReturnType +
  BlobURLPut :: "string option"

record ItemResponse = ReturnType +
  Version :: int
  VissibleName :: string
  BlobURLGet :: "string option"

record discovery =
  Host :: string
  Status :: string

text \<open>
  The errors the class throws. Every \<^verbatim>\<open>throw\<close> of the source is a plain \<^verbatim>\<open>Error\<close> with a
  message; a property access on \<^verbatim>\<open>undefined\<close> is a \<^verbatim>\<open>TypeError\<close>; a rejected transport call
  is passed on unchanged.
\<close>

datatype error =
    Error string
  | TypeError string
  | TransportError string

text \<open>The names the specification gives to the thrown errors.\<close>

definition AuthenticationRequiredError :: error where
  "AuthenticationRequiredError = Error ''You need to call refreshToken() first''"

definition NotRegisteredError :: error where
  "NotRegisteredError = Error ''You must register your reMarkable first''"

definition RegistrationError :: error where
  "RegistrationError = Error ''Must provide a code from https://my.remarkable.com/connect/desktop''"

definition BlobNotFoundError :: error where
  "BlobNotFoundError = Error ''Couldn't find BlobURLGet in response''"

definition UploadRequestError :: error where
  "UploadRequestError = Error ''Error during the creation of the upload request''"

definition UploadTransferError :: error where
  "UploadTransferError = Error ''Error during the upload of the document''"

definition MetadataUpdateError :: error where
  "MetadataUpdateError = Error ''Error during the update status of the metadata''"

section \<open>The collaborators\<close>

text \<open>
  Everything the class calls but does not define. The transport (\<^verbatim>\<open>got\<close>) answers a
  request given the requests issued before it, so a later call may be answered
  differently from an earlier one; each handler has the body type its call site
  declares, and \<open>Inl\<close> is a rejected call (network failure, HTTP error status).
  \<open>http_stream\<close> is \<^verbatim>\<open>got.stream\<close>: the chunks received when the stream ends, or \<open>None\<close>
  when it never signals its end. The remaining fields are the identity generator, the
  clock, the archive writer, the query-string encoder and two imported constants.
\<close>

record env =
  http_text :: "request list \<Rightarrow> request \<Rightarrow> string + string"
  http_discovery :: "request list \<Rightarrow> request \<Rightarrow> string + discovery"
  http_items :: "request list \<Rightarrow> request \<Rightarrow> string + ItemResponse list"
  http_results :: "request list \<Rightarrow> request \<Rightarrow> string + ReturnType list"
  http_slots :: "request list \<Rightarrow> request \<Rightarrow> string + UploadRequestReturnType list"
  http_status :: "request list \<Rightarrow> request \<Rightarrow> string + nat"
  http_stream :: "request list \<Rightarrow> request \<Rightarrow> bytes list option"
  uuidv4 :: "nat \<Rightarrow> string"
  generateDeviceId :: string
  toISOString :: "request list \<Rightarrow> nat \<Rightarrow> string"
  generateAsync :: "(string \<times> zip_data) list \<Rightarrow> bytes"
  queryString_stringify :: "string option \<Rightarrow> bool \<Rightarrow> string"
  pkgVersion :: string
  DocumentType :: string

section \<open>The client instance\<close>

text \<open>
  The fields of the class, together with what an execution has consumed from the
  outside: \<open>sent\<close> is every request issued so far, oldest first, and \<open>ids\<close> counts the
  identifiers drawn from \<^verbatim>\<open>uuidv4\<close>. \<open>gotClient\<close> is the extended client, represented by
  the headers it attaches. \<open>zip_pkg\<close> is the \<^verbatim>\<open>zip\<close> field: the entries of the \<^verbatim>\<open>JSZip\<close>
  instance, in insertion order.
\<close>

record state =
  token :: "string option"
  deviceToken :: "string option"
  gotClient :: "(string \<times> string) list"
  storageUrl :: "string option"
  notificationUrl :: "string option"
  zip_pkg :: "(string \<times> zip_data) list"
  sent :: "request list"
  ids :: nat

definition gotConfiguration :: "env \<Rightarrow> (string \<times> string) list" where
  "gotConfiguration e = [(''User-Agent'', ''remarkable-typescript/'' @ pkgVersion e)]"

definition defaultPDFContent :: json where
  "defaultPDFContent = JObject
     [(''extraMetadata'', JObject []),
      (''fileType'', JString ''pdf''),
      (''lastOpenedPage'', JNumber 0),
      (''lineHeight'', JNumber (- 1)),
      (''margins'', JNumber 180),
      (''pageCount'', JNumber 0),
      (''textScale'', JNumber 1),
      (''transform'', JObject [])]"

text \<open>The two timestamps are taken when the module is loaded, before any request.\<close>

definition defaultPDFmetadata :: "env \<Rightarrow> (string \<times> json) list" where
  "defaultPDFmetadata e =
     [(''deleted'', JBoolean False),
      (''lastModified'', JString (toISOString e [] 0)),
      (''ModifiedClient'', JString (toISOString e [] 1)),
      (''metadatamodified'', JBoolean False),
      (''modified'', JBoolean False),
      (''parent'', JString []),
      (''pinned'', JBoolean False),
      (''synced'', JBoolean True),
      (''type'', JString (DocumentType e)),
      (''version'', JNumber 1),
      (''VissibleName'', JString ''New Document'')]"

definition constructor :: "env \<Rightarrow> string option \<Rightarrow> state" where
  "constructor e dt =
     \<lparr>token = None,
      deviceToken = (if truthy dt then dt else None),
      gotClient = gotConfiguration e,
      storageUrl = None,
      notificationUrl = None,
      zip_pkg = [],
      sent = [],
      ids = 0\<rparr>"

text \<open>Issuing a request appends it to the record of requests.\<close>

definition send :: "request \<Rightarrow> state \<Rightarrow> state" where
  "send r s = s\<lparr>sent := sent s @ [r]\<rparr>"

definition setToken :: "env \<Rightarrow> string \<Rightarrow> state \<Rightarrow> state" where
  "setToken e t s =
     s\<lparr>gotClient := gotConfiguration e @ [(''Authorization'', ''Bearer '' @ t)],
       token := Some t\<rparr>"

section \<open>Session manager\<close>

text \<open>
  Every operation takes the instance and returns its outcome with the instance
  afterwards: \<open>Inl\<close> is a thrown error (a rejected promise), \<open>Inr\<close> the returned value.
\<close>

definition refreshToken :: "env \<Rightarrow> state \<Rightarrow> (error + string) \<times> state" where
  "refreshToken e s =
     (if \<not> truthy (deviceToken s) then (Inl NotRegisteredError, s)
      else
        let r = \<lparr>meth = POST,
                 url = ''https://my.remarkable.com/token/json/2/user/new'',
                 headers = [(''Authorization'', ''Bearer '' @ template (deviceToken s)),
                            (''User-Agent'', ''remarkable-typescript/'' @ pkgVersion e)],
                 body = NoBody\<rparr>
        in (case http_text e (sent s) r of
              Inl f \<Rightarrow> (Inl (TransportError f), send r s)
            | Inr b \<Rightarrow> (Inr b, setToken e b (send r s))))"

text \<open>
  The options of the two discovery calls; a field left out takes its default.
\<close>

record options =
  environment :: "string option"
  group :: "string option"
  apiVer :: "int option"

definition no_options :: options where
  "no_options = \<lparr>environment = None, group = None, apiVer = None\<rparr>"

definition discovery_query :: "int \<Rightarrow> options \<Rightarrow> string" where
  "discovery_query v opts =
     ''?environment='' @ (case environment opts of None \<Rightarrow> ''production'' | Some x \<Rightarrow> x)
     @ ''&group='' @ (case group opts of None \<Rightarrow> ''auth0|5a68dc51cb30df3877a1d7c4'' | Some x \<Rightarrow> x)
     @ ''&apiVer='' @ show_int (case apiVer opts of None \<Rightarrow> v | Some x \<Rightarrow> x)"

definition storage_discovery :: "options \<Rightarrow> state \<Rightarrow> request" where
  "storage_discovery opts s =
     \<lparr>meth = GET,
      url = ''https://service-manager-production-dot-remarkable-production.appspot.com/service/json/1/document-storage''
            @ discovery_query 2 opts,
      headers = gotClient s,
      body = NoBody\<rparr>"

definition getStorageUrl :: "env \<Rightarrow> options \<Rightarrow> state \<Rightarrow> (error + string) \<times> state" where
  "getStorageUrl e opts s =
     (case if_truthy (storageUrl s) of
        Some u \<Rightarrow> (Inr u, s)
      | None \<Rightarrow>
          if \<not> truthy (token s) then (Inl AuthenticationRequiredError, s)
          else
            let r = storage_discovery opts s
            in (case http_discovery e (sent s) r of
                  Inl f \<Rightarrow> (Inl (TransportError f), send r s)
                | Inr b \<Rightarrow>
                    (Inr (''https://'' @ Host b),
                     (send r s)\<lparr>storageUrl := Some (''https://'' @ Host b)\<rparr>)))"

definition notification_discovery :: "options \<Rightarrow> state \<Rightarrow> request" where
  "notification_discovery opts s =
     \<lparr>meth = GET,
      url = ''https://service-manager-production-dot-remarkable-production.appspot.com/service/json/1/notifications''
            @ discovery_query 1 opts,
      headers = gotClient s,
      body = NoBody\<rparr>"

definition getNotificationsUrl :: "env \<Rightarrow> options \<Rightarrow> state \<Rightarrow> (error + string) \<times> state" where
  "getNotificationsUrl e opts s =
     (case if_truthy (notificationUrl s) of
        Some u \<Rightarrow> (Inr u, s)
      | None \<Rightarrow>
          if \<not> truthy (token s) then (Inl AuthenticationRequiredError, s)
          else
            let r = notification_discovery opts s
            in (case http_discovery e (sent s) r of
                  Inl f \<Rightarrow> (Inl (TransportError f), send r s)
                | Inr b \<Rightarrow>
                    (Inr (''wss://'' @ Host b),
                     (send r s)\<lparr>notificationUrl := Some (''wss://'' @ Host b)\<rparr>)))"

text \<open>
  \<^verbatim>\<open>register\<close>: the description and the device id are optional and take their defaults
  when left out. The device token is stored before the dependent refresh runs.
\<close>

definition register_request :: "env \<Rightarrow> string \<Rightarrow> string option \<Rightarrow> string option \<Rightarrow> request" where
  "register_request e code deviceDesc deviceId =
     \<lparr>meth = POST,
      url = ''https://my.remarkable.com/token/json/2/device/new'',
      headers = [],
      body = Json (JObject
        [(''code'', JString code),
         (''deviceDesc'', JString (case deviceDesc of None \<Rightarrow> ''desktop-windows'' | Some d \<Rightarrow> d)),
         (''deviceId'', JString (case deviceId of None \<Rightarrow> generateDeviceId e | Some d \<Rightarrow> d))])\<rparr>"

definition register ::
  "env \<Rightarrow> string \<Rightarrow> string option \<Rightarrow> string option \<Rightarrow> state \<Rightarrow> (error + string) \<times> state" where
  "register e code deviceDesc deviceId s =
     (if code = [] then (Inl RegistrationError, s)
      else
        let r = register_request e code deviceDesc deviceId
        in (case http_text e (sent s) r of
              Inl f \<Rightarrow> (Inl (TransportError f), send r s)
            | Inr b \<Rightarrow>
                (case refreshToken e ((send r s)\<lparr>deviceToken := Some b\<rparr>) of
                   (Inl err, s') \<Rightarrow> (Inl err, s')
                 | (Inr _, s') \<Rightarrow> (Inr b, s'))))"

section \<open>Document directory\<close>

definition list_request :: "env \<Rightarrow> string \<Rightarrow> string option \<Rightarrow> bool \<Rightarrow> state \<Rightarrow> request" where
  "list_request e u doc withBlob s =
     \<lparr>meth = GET,
      url = u @ ''/document-storage/json/2/docs?'' @ queryString_stringify e doc withBlob,
      headers = gotClient s,
      body = NoBody\<rparr>"

definition listItems ::
  "env \<Rightarrow> string option \<Rightarrow> bool \<Rightarrow> state \<Rightarrow> (error + ItemResponse list) \<times> state" where
  "listItems e doc withBlob s =
     (if \<not> truthy (token s) then (Inl AuthenticationRequiredError, s)
      else
        case getStorageUrl e no_options s of
          (Inl err, s1) \<Rightarrow> (Inl err, s1)
        | (Inr u, s1) \<Rightarrow>
            let r = list_request e u doc withBlob s1
            in (case http_items e (sent s1) r of
                  Inl f \<Rightarrow> (Inl (TransportError f), send r s1)
                | Inr b \<Rightarrow> (Inr b, send r s1)))"

text \<open>The first element of the listing; \<open>None\<close> is \<^verbatim>\<open>undefined\<close>, the value of \<^verbatim>\<open>[][0]\<close>.\<close>

definition getItemWithId ::
  "env \<Rightarrow> string \<Rightarrow> state \<Rightarrow> (error + ItemResponse option) \<times> state" where
  "getItemWithId e i s =
     (case listItems e (Some i) True s of
        (Inl err, s1) \<Rightarrow> (Inl err, s1)
      | (Inr b, s1) \<Rightarrow> (Inr (case b of [] \<Rightarrow> None | x # _ \<Rightarrow> Some x), s1))"

definition getAllItems :: "env \<Rightarrow> state \<Rightarrow> (error + ItemResponse list) \<times> state" where
  "getAllItems e s = listItems e None True s"

definition delete_request :: "string \<Rightarrow> string \<Rightarrow> int \<Rightarrow> state \<Rightarrow> request" where
  "delete_request u i v s =
     \<lparr>meth = PUT,
      url = u @ ''/document-storage/json/2/delete'',
      headers = gotClient s,
      body = Json (JArray [JObject [(''ID'', JString i), (''Version'', JNumber v)]])\<rparr>"

definition deleteItem :: "env \<Rightarrow> string \<Rightarrow> int \<Rightarrow> state \<Rightarrow> (error + bool) \<times> state" where
  "deleteItem e i v s =
     (case getStorageUrl e no_options s of
        (Inl err, s1) \<Rightarrow> (Inl err, s1)
      | (Inr u, s1) \<Rightarrow>
          let r = delete_request u i v s1
          in (case http_results e (sent s1) r of
                Inl f \<Rightarrow> (Inl (TransportError f), send r s1)
              | Inr [] \<Rightarrow>
                  (Inl (TypeError ''Cannot read properties of undefined (reading 'Success')''),
                   send r s1)
              | Inr (x # _) \<Rightarrow> (Inr (Success x), send r s1)))"

section \<open>Transfer pipeline\<close>

definition stream_request :: "string \<Rightarrow> request" where
  "stream_request u = \<lparr>meth = STREAM, url = u, headers = [], body = NoBody\<rparr>"

text \<open>
  \<^verbatim>\<open>downloadZip\<close>: the result \<open>Inr None\<close> is a promise that never settles, which is what
  the source returns when the stream never signals its end.
\<close>

definition downloadZip :: "env \<Rightarrow> string \<Rightarrow> state \<Rightarrow> (error + bytes option) \<times> state" where
  "downloadZip e i s =
     (if \<not> truthy (token s) then (Inl AuthenticationRequiredError, s)
      else
        case getItemWithId e i s of
          (Inl err, s1) \<Rightarrow> (Inl err, s1)
        | (Inr None, s1) \<Rightarrow>
            (Inl (TypeError ''Cannot destructure property 'BlobURLGet' of undefined''), s1)
        | (Inr (Some item), s1) \<Rightarrow>
            if \<not> truthy (BlobURLGet item) then (Inl BlobNotFoundError, s1)
            else
              let r = stream_request (template (BlobURLGet item))
              in (Inr (map_option concat (http_stream e (sent s1) r)), send r s1))"

definition upload_request :: "env \<Rightarrow> string \<Rightarrow> string \<Rightarrow> state \<Rightarrow> request" where
  "upload_request e u i s =
     \<lparr>meth = PUT,
      url = u @ ''/document-storage/json/2/upload/request'',
      headers = gotClient s,
      body = Json (JArray [JObject
        [(''ID'', JString i), (''Type'', JString (DocumentType e)), (''Version'', JNumber 1)]])\<rparr>"

definition transfer_request :: "env \<Rightarrow> string \<Rightarrow> bytes \<Rightarrow> state \<Rightarrow> request" where
  "transfer_request e u zipFile s =
     \<lparr>meth = PUT,
      url = u,
      headers = gotConfiguration e
        @ [(''Content-Type'', []), (''Authorization'', ''Bearer '' @ template (token s))],
      body = Raw zipFile\<rparr>"

text \<open>
  The metadata of the finalize phase: the defaults, over which the id, the name and two
  fresh timestamps are spread (a key already present keeps its place).
\<close>

definition update_status_request :: "env \<Rightarrow> string \<Rightarrow> string \<Rightarrow> string \<Rightarrow> state \<Rightarrow> request" where
  "update_status_request e u name i s =
     \<lparr>meth = PUT,
      url = u @ ''/document-storage/json/2/upload/update-status'',
      headers = gotClient s,
      body = Json (JArray [JObject
        (AList.update ''ModifiedClient'' (JString (toISOString e (sent s) 1))
          (AList.update ''lastModified'' (JString (toISOString e (sent s) 0))
            (AList.update ''VissibleName'' (JString name)
              (AList.update ''ID'' (JString i) (defaultPDFmetadata e)))))])\<rparr>"

definition uploadZip ::
  "env \<Rightarrow> string \<Rightarrow> string \<Rightarrow> bytes \<Rightarrow> state \<Rightarrow> (error + string) \<times> state" where
  "uploadZip e name i zipFile s =
     (if \<not> truthy (token s) then (Inl AuthenticationRequiredError, s)
      else
        case getStorageUrl e no_options s of
          (Inl err, s1) \<Rightarrow> (Inl err, s1)
        | (Inr u, s1) \<Rightarrow>
            let r1 = upload_request e u i s1
            in (case http_slots e (sent s1) r1 of
                  Inl f \<Rightarrow> (Inl (TransportError f), send r1 s1)
                | Inr [] \<Rightarrow>
                    (Inl (TypeError ''Cannot read properties of undefined (reading 'Success')''),
                     send r1 s1)
                | Inr (slot # _) \<Rightarrow>
                    if \<not> Success slot \<or> \<not> truthy (BlobURLPut slot)
                    then (Inl UploadRequestError, send r1 s1)
                    else
                      let s2 = send r1 s1;
                          r2 = transfer_request e (template (BlobURLPut slot)) zipFile s2
                      in (case http_status e (sent s2) r2 of
                            Inl f \<Rightarrow> (Inl (TransportError f), send r2 s2)
                          | Inr statusCode \<Rightarrow>
                              if statusCode \<noteq> 200 then (Inl UploadTransferError, send r2 s2)
                              else
                                (case getStorageUrl e no_options (send r2 s2) of
                                   (Inl err, s3) \<Rightarrow> (Inl err, s3)
                                 | (Inr u', s3) \<Rightarrow>
                                     let r3 = update_status_request e u' name i s3
                                     in (case http_results e (sent s3) r3 of
                                           Inl f \<Rightarrow> (Inl (TransportError f), send r3 s3)
                                         | Inr [] \<Rightarrow>
                                             (Inl (TypeError
                                                ''Cannot read properties of undefined (reading 'Success')''),
                                              send r3 s3)
                                         | Inr (res # _) \<Rightarrow>
                                             if \<not> Success res
                                             then (Inl MetadataUpdateError, send r3 s3)
                                             else (Inr (ID res), send r3 s3))))))"

section \<open>Document packager\<close>

text \<open>
  \<^verbatim>\<open>JSZip.file(name, data)\<close> adds an entry, or replaces the data of the entry of that name
  where it stands. The names built here are an identifier followed by an extension and
  hold no path separator, so no folder entry is created.
\<close>

definition zip_file :: "string \<Rightarrow> zip_data \<Rightarrow> (string \<times> zip_data) list \<Rightarrow> (string \<times> zip_data) list" where
  "zip_file name d z = AList.update name d z"

text \<open>The three \<^verbatim>\<open>file\<close> calls of \<^verbatim>\<open>uploadPDF\<close>, on the package the instance holds.\<close>

definition add_pdf_entries ::
  "string \<Rightarrow> bytes \<Rightarrow> (string \<times> zip_data) list \<Rightarrow> (string \<times> zip_data) list" where
  "add_pdf_entries i file z =
     zip_file (i @ ''.pdf'') (BufferData file)
       (zip_file (i @ ''.pagedata'') (ArrayData [])
         (zip_file (i @ ''.content'') (StringData (JSON_stringify defaultPDFContent)) z))"

definition uploadPDF :: "env \<Rightarrow> string \<Rightarrow> bytes \<Rightarrow> state \<Rightarrow> (error + string) \<times> state" where
  "uploadPDF e name file s =
     (if \<not> truthy (token s) then (Inl AuthenticationRequiredError, s)
      else
        let i = uuidv4 e (ids s);
            s1 = s\<lparr>ids := Suc (ids s), zip_pkg := add_pdf_entries i file (zip_pkg s)\<rparr>;
            zipContent = generateAsync e (zip_pkg s1)
        in (case uploadZip e name i zipContent s1 of
              (Inl err, s2) \<Rightarrow> (Inl err, s2)
            | (Inr _, s2) \<Rightarrow> (Inr i, s2\<lparr>zip_pkg := []\<rparr>)))"

section \<open>Executions\<close>

text \<open>
  The public operations as calls, and the instance after a call and after a sequence of
  calls. An instance is reachable when a sequence of calls leads to it from a freshly
  constructed one.
\<close>

datatype call =
    Register string "string option" "string option"
  | RefreshToken
  | GetStorageUrl options
  | GetNotificationsUrl options
  | GetItemWithId string
  | GetAllItems
  | DeleteItem string int
  | DownloadZip string
  | UploadZip string string bytes
  | UploadPDF string bytes

fun exec :: "env \<Rightarrow> call \<Rightarrow> state \<Rightarrow> state" where
  "exec e (Register code deviceDesc deviceId) s = snd (register e code deviceDesc deviceId s)"
| "exec e RefreshToken s = snd (refreshToken e s)"
| "exec e (GetStorageUrl opts) s = snd (getStorageUrl e opts s)"
| "exec e (GetNotificationsUrl opts) s = snd (getNotificationsUrl e opts s)"
| "exec e (GetItemWithId i) s = snd (getItemWithId e i s)"
| "exec e GetAllItems s = snd (getAllItems e s)"
| "exec e (DeleteItem i v) s = snd (deleteItem e i v s)"
| "exec e (DownloadZip i) s = snd (downloadZip e i s)"
| "exec e (UploadZip name i zipFile) s = snd (uploadZip e name i zipFile s)"
| "exec e (UploadPDF name file) s = snd (uploadPDF e name file s)"

definition run :: "env \<Rightarrow> call list \<Rightarrow> state \<Rightarrow> state" where
  "run e cs s = foldl (\<lambda>s' c. exec e c s') s cs"

definition reachable :: "env \<Rightarrow> state \<Rightarrow> bool" where
  "reachable e s \<longleftrightarrow> (\<exists>dt cs. s = run e cs (constructor e dt))"

section \<open>Vocabulary of the properties\<close>

text \<open>
  \<open>keeps s s'\<close> relates an instance to a later one: a session token, once assigned, stays
  assigned, and each endpoint is either untouched or was resolved, from a falsy value,
  on an instance that holds a session token.
\<close>

definition keeps :: "state \<Rightarrow> state \<Rightarrow> bool" where
  "keeps s s' \<longleftrightarrow>
     (token s \<noteq> None \<longrightarrow> token s' \<noteq> None) \<and>
     (storageUrl s' = storageUrl s \<or>
        (\<not> truthy (storageUrl s) \<and> token s' \<noteq> None \<and> truthy (storageUrl s'))) \<and>
     (notificationUrl s' = notificationUrl s \<or>
        (\<not> truthy (notificationUrl s) \<and> token s' \<noteq> None \<and> truthy (notificationUrl s')))"

text \<open>The instance invariant: a cached endpoint comes with a session token.\<close>

definition endpoints_imply_token :: "state \<Rightarrow> bool" where
  "endpoints_imply_token s \<longleftrightarrow>
     (storageUrl s \<noteq> None \<or> notificationUrl s \<noteq> None \<longrightarrow> token s \<noteq> None)"

text \<open>
  The same with a truthy token, which is what the guards of the class test. It needs a
  service whose token exchange never answers with an empty string.
\<close>

definition endpoints_imply_live_token :: "state \<Rightarrow> bool" where
  "endpoints_imply_live_token s \<longleftrightarrow>
     (storageUrl s \<noteq> None \<or> notificationUrl s \<noteq> None \<longrightarrow> truthy (token s))"

definition nonempty_tokens :: "env \<Rightarrow> bool" where
  "nonempty_tokens e \<longleftrightarrow> (\<forall>h r b. http_text e h r = Inr b \<longrightarrow> b \<noteq> [])"

text \<open>
  \<open>resolves s s'\<close> relates an instance to the one a token-reading operation leaves: the
  token is the same, and an endpoint changes only where the token is truthy.
\<close>

definition resolves :: "state \<Rightarrow> state \<Rightarrow> bool" where
  "resolves s s' \<longleftrightarrow>
     token s' = token s \<and>
     (storageUrl s' = storageUrl s \<or> truthy (token s)) \<and>
     (notificationUrl s' = notificationUrl s \<or> truthy (token s))"

text \<open>The requests that open a stream.\<close>

definition is_stream :: "request \<Rightarrow> bool" where
  "is_stream r \<longleftrightarrow> meth r = STREAM"

subsection \<open>Sample services\<close>

text \<open>
  A scripted transport with the other collaborators fixed. Registration answers
  \<^verbatim>\<open>dtok\<close>, the token exchange \<^verbatim>\<open>stok\<close>; the listing holds one item without a blob
  reference; the delete is refused; the first upload request is refused and later ones
  are granted; the archive writer returns one byte, the number of entries it was given.
\<close>

definition service :: env where
  "service =
     \<lparr>http_text = (\<lambda>h r. if headers r = [] then Inr ''dtok'' else Inr ''stok''),
      http_discovery = (\<lambda>h r. Inr \<lparr>Host = ''host.example'', Status = ''OK''\<rparr>),
      http_items = (\<lambda>h r. Inr [\<lparr>ID = ''doc1'', Success = True, Version = 3,
                                  VissibleName = ''Notes'', BlobURLGet = None\<rparr>]),
      http_results = (\<lambda>h r. if url r = ''https://host.example/document-storage/json/2/delete''
                              then Inr [\<lparr>ID = ''doc1'', Success = False\<rparr>]
                              else Inr [\<lparr>ID = ''id1'', Success = True\<rparr>]),
      http_slots = (\<lambda>h r. if length h < 3
                            then Inr [\<lparr>ID = ''id0'', Success = False, BlobURLPut = None\<rparr>]
                            else Inr [\<lparr>ID = ''id1'', Success = True,
                                       BlobURLPut = Some ''https://blob.example/put''\<rparr>]),
      http_status = (\<lambda>h r. Inr 200),
      http_stream = (\<lambda>h r. Some []),
      uuidv4 = (\<lambda>n. if n = 0 then ''id0'' else ''id1''),
      generateDeviceId = ''device'',
      toISOString = (\<lambda>h n. ''2020-01-01T00:00:00.000Z''),
      generateAsync = (\<lambda>z. [of_nat (length z)]),
      queryString_stringify = (\<lambda>d b. ''withBlob=true''),
      pkgVersion = ''1.0.0'',
      DocumentType = ''DocumentType''\<rparr>"

text \<open>The same service with the token exchange unreachable, and with an empty listing.\<close>

definition refresh_down :: env where
  "refresh_down = service\<lparr>http_text := (\<lambda>h r. if headers r = [] then Inr ''dtok'' else Inl ''ETIMEDOUT'')\<rparr>"

definition empty_listing :: env where
  "empty_listing = service\<lparr>http_items := (\<lambda>h r. Inr [])\<rparr>"

text \<open>An instance constructed with a device token, after one \<^verbatim>\<open>refreshToken()\<close>.\<close>

definition session_of :: "env \<Rightarrow> state" where
  "session_of e = run e [RefreshToken] (constructor e (Some ''dtok''))"

text \<open>
  That instance after its storage endpoint was resolved, and after a first
  \<^verbatim>\<open>uploadPDF\<close> whose upload request the service refused.
\<close>

definition resolved_session :: state where
  "resolved_session = snd (getStorageUrl service no_options (session_of service))"

definition failed_upload :: state where
  "failed_upload = snd (uploadPDF service ''Report'' [1, 2, 3] (session_of service))"

section \<open>Basic facts\<close>

lemma if_truthy_Some: "if_truthy x = Some u \<longleftrightarrow> x = Some u \<and> u \<noteq> []"
  by (auto simp: if_truthy_def split: option.splits)

lemma if_truthy_None: "if_truthy x = None \<longleftrightarrow> \<not> truthy x"
  by (auto simp: if_truthy_def truthy_def split: option.splits)

lemma truthy_None [simp]: "\<not> truthy None"
  by (simp add: truthy_def)

lemma truthy_Some [simp]: "truthy (Some v) \<longleftrightarrow> v \<noteq> []"
  by (simp add: truthy_def)

lemma send_fields [simp]:
  "token (send r s) = token s"
  "deviceToken (send r s) = deviceToken s"
  "gotClient (send r s) = gotClient s"
  "storageUrl (send r s) = storageUrl s"
  "notificationUrl (send r s) = notificationUrl s"
  "zip_pkg (send r s) = zip_pkg s"
  "sent (send r s) = sent s @ [r]"
  "ids (send r s) = ids s"
  by (simp_all add: send_def)

lemma setToken_fields [simp]:
  "token (setToken e t s) = Some t"
  "deviceToken (setToken e t s) = deviceToken s"
  "storageUrl (setToken e t s) = storageUrl s"
  "notificationUrl (setToken e t s) = notificationUrl s"
  "zip_pkg (setToken e t s) = zip_pkg s"
  "sent (setToken e t s) = sent s"
  "ids (setToken e t s) = ids s"
  by (simp_all add: setToken_def)

lemma run_Nil [simp]: "run e [] s = s"
  by (simp add: run_def)

lemma run_Cons [simp]: "run e (c # cs) s = run e cs (exec e c s)"
  by (simp add: run_def)

lemma run_snoc: "run e (cs @ [c]) s = exec e c (run e cs s)"
  by (simp add: run_def)

lemma run_append: "run e (cs @ ds) s = run e ds (run e cs s)"
  by (simp add: run_def)

lemma reachable_constructor: "reachable e (constructor e dt)"
  unfolding reachable_def by (rule exI [of _ dt], rule exI [of _ "[]"]) simp

lemma reachable_run: "reachable e s \<Longrightarrow> reachable e (run e cs s)"
  unfolding reachable_def by (metis run_append)

subsection \<open>The sample services, evaluated\<close>

lemma service_fields:
  "http_text service = (\<lambda>h r. if headers r = [] then Inr ''dtok'' else Inr ''stok'')"
  "http_discovery service = (\<lambda>h r. Inr \<lparr>Host = ''host.example'', Status = ''OK''\<rparr>)"
  "http_items service = (\<lambda>h r. Inr [\<lparr>ID = ''doc1'', Success = True, Version = 3,
                                  VissibleName = ''Notes'', BlobURLGet = None\<rparr>])"
  "http_results service = (\<lambda>h r. if url r = ''https://host.example/document-storage/json/2/delete''
                              then Inr [\<lparr>ID = ''doc1'', Success = False\<rparr>]
                              else Inr [\<lparr>ID = ''id1'', Success = True\<rparr>])"
  "http_slots service = (\<lambda>h r. if length h < 3
                            then Inr [\<lparr>ID = ''id0'', Success = False, BlobURLPut = None\<rparr>]
                            else Inr [\<lparr>ID = ''id1'', Success = True,
                                       BlobURLPut = Some ''https://blob.example/put''\<rparr>])"
  "http_status service = (\<lambda>h r. Inr 200)"
  "http_stream service = (\<lambda>h r. Some [])"
  "uuidv4 service = (\<lambda>n. if n = 0 then ''id0'' else ''id1'')"
  "generateDeviceId service = ''device''"
  "toISOString service = (\<lambda>h n. ''2020-01-01T00:00:00.000Z'')"
  "generateAsync service = (\<lambda>z. [of_nat (length z)])"
  "queryString_stringify service = (\<lambda>d b. ''withBlob=true'')"
  "pkgVersion service = ''1.0.0''"
  "DocumentType service = ''DocumentType''"
  by (simp_all add: service_def)

lemmas session_defs = session_of_def constructor_def refreshToken_def setToken_def
  send_def gotConfiguration_def template_def

lemma session_of_service:
  "session_of service =
     \<lparr>token = Some ''stok'', deviceToken = Some ''dtok'',
      gotClient = [(''User-Agent'', ''remarkable-typescript/1.0.0''),
                   (''Authorization'', ''Bearer stok'')],
      storageUrl = None, notificationUrl = None, zip_pkg = [],
      sent = [\<lparr>meth = POST, url = ''https://my.remarkable.com/token/json/2/user/new'',
                 headers = [(''Authorization'', ''Bearer dtok''),
                            (''User-Agent'', ''remarkable-typescript/1.0.0'')],
                 body = NoBody\<rparr>],
      ids = 0\<rparr>"
  by (simp add: session_defs service_fields)

lemma token_session: "token (session_of service) = Some ''stok''"
  by (simp add: session_of_service)

lemma storage_of_session:
  "getStorageUrl service no_options (session_of service)
     = (Inr ''https://host.example'', resolved_session)"
  by (simp add: resolved_session_def session_of_service getStorageUrl_def if_truthy_def
      service_fields)

lemma resolved_session_fields:
  "token resolved_session = Some ''stok''"
  "storageUrl resolved_session = Some ''https://host.example''"
  "map meth (sent resolved_session) = [POST, GET]"
  by (simp_all add: resolved_session_def session_of_service getStorageUrl_def if_truthy_def
      service_fields storage_discovery_def send_def)

lemma notifications_of_session:
  "getNotificationsUrl service no_options (session_of service)
     = (Inr ''wss://host.example'', snd (getNotificationsUrl service no_options (session_of service)))"
  by (simp add: session_of_service getNotificationsUrl_def if_truthy_def service_fields)

lemma item_of_session:
  "getItemWithId service ''doc1'' (session_of service)
     = (Inr (Some \<lparr>ID = ''doc1'', Success = True, Version = 3, VissibleName = ''Notes'',
                     BlobURLGet = None\<rparr>),
        send (list_request service ''https://host.example'' (Some ''doc1'') True resolved_session)
          resolved_session)"
  by (simp add: getItemWithId_def listItems_def storage_of_session token_session
      service_fields Let_def)

lemma empty_listing_fields:
  "http_text empty_listing = http_text service"
  "http_discovery empty_listing = http_discovery service"
  "http_items empty_listing = (\<lambda>h r. Inr [])"
  "pkgVersion empty_listing = pkgVersion service"
  by (simp_all add: empty_listing_def)

section \<open>What every operation keeps\<close>

lemma keeps_refl [simp]: "keeps s s"
  by (simp add: keeps_def)

lemma keeps_trans: "keeps s s' \<Longrightarrow> keeps s' s'' \<Longrightarrow> keeps s s''"
  unfolding keeps_def by metis

lemma keeps_send [simp]: "keeps s (send r s)"
  by (simp add: keeps_def)

lemma keeps_send_right [simp]: "keeps s (send r s') = keeps s s'"
  by (simp add: keeps_def)

lemma keeps_zip_right [simp]: "keeps s (s'\<lparr>zip_pkg := z\<rparr>) = keeps s s'"
  by (simp add: keeps_def)

lemma keeps_pkg_left [simp]: "keeps (s\<lparr>ids := n, zip_pkg := z\<rparr>) s' = keeps s s'"
  by (simp add: keeps_def)

lemma keeps_refreshToken: "keeps s (snd (refreshToken e s))"
  by (auto simp: keeps_def refreshToken_def Let_def split: sum.splits)

lemma keeps_getStorageUrl: "keeps s (snd (getStorageUrl e opts s))"
  by (auto simp: keeps_def getStorageUrl_def Let_def if_truthy_None truthy_def
      split: sum.splits option.splits)

lemma keeps_getNotificationsUrl: "keeps s (snd (getNotificationsUrl e opts s))"
  by (auto simp: keeps_def getNotificationsUrl_def Let_def if_truthy_None truthy_def
      split: sum.splits option.splits)

lemma keeps_register: "keeps s (snd (register e c d i s))"
  by (auto simp: keeps_def register_def refreshToken_def Let_def split: sum.splits prod.splits)

lemma getStorageUrl_keeps: "getStorageUrl e opts s = (r, s') \<Longrightarrow> keeps s s'"
  using keeps_getStorageUrl [of s e opts] by simp

lemma keeps_listItems: "keeps s (snd (listItems e d w s))"
  by (auto simp: listItems_def Let_def split: sum.splits prod.splits dest: getStorageUrl_keeps)

lemma listItems_keeps: "listItems e d w s = (r, s') \<Longrightarrow> keeps s s'"
  using keeps_listItems [of s e d w] by simp

lemma keeps_getItemWithId: "keeps s (snd (getItemWithId e i s))"
  by (auto simp: getItemWithId_def split: sum.splits prod.splits dest: listItems_keeps)

lemma getItemWithId_keeps: "getItemWithId e i s = (r, s') \<Longrightarrow> keeps s s'"
  using keeps_getItemWithId [of s e i] by simp

lemma keeps_deleteItem: "keeps s (snd (deleteItem e i v s))"
  by (auto simp: deleteItem_def Let_def split: sum.splits prod.splits list.splits
      dest: getStorageUrl_keeps)

lemma keeps_downloadZip: "keeps s (snd (downloadZip e i s))"
  by (auto simp: downloadZip_def Let_def split: sum.splits prod.splits option.splits
      dest: getItemWithId_keeps)

lemma keeps_uploadZip: "keeps s (snd (uploadZip e n i z s))"
proof (cases "getStorageUrl e no_options s")
  case (Pair r s1)
  then have k1: "keeps s s1" by (rule getStorageUrl_keeps)
  have k2: "keeps s s3"
    if "getStorageUrl e no_options (send r2 (send r1 s1)) = (r', s3)" for r1 r2 r' s3
  proof -
    have "keeps (send r2 (send r1 s1)) s3" using that by (rule getStorageUrl_keeps)
    moreover have "keeps s (send r2 (send r1 s1))" using k1 by simp
    ultimately show ?thesis by (rule keeps_trans [rotated])
  qed
  show ?thesis
    using Pair k1 k2
    by (auto simp: uploadZip_def Let_def split: sum.splits prod.splits list.splits)
qed

lemma uploadZip_keeps: "uploadZip e n i z s = (r, s') \<Longrightarrow> keeps s s'"
  using keeps_uploadZip [of s e n i z] by simp

lemma keeps_uploadPDF: "keeps s (snd (uploadPDF e n f s))"
  by (auto simp: uploadPDF_def Let_def split: sum.splits prod.splits dest!: uploadZip_keeps)

lemma keeps_exec: "keeps s (exec e c s)"
  by (cases c)
    (simp_all add: keeps_register keeps_refreshToken keeps_getStorageUrl
      keeps_getNotificationsUrl keeps_getItemWithId keeps_listItems getAllItems_def
      keeps_deleteItem keeps_downloadZip keeps_uploadZip keeps_uploadPDF)

lemma keeps_run: "keeps s (run e cs s)"
proof (induction cs arbitrary: s)
  case Nil
  show ?case by simp
next
  case (Cons c cs)
  have "keeps s (exec e c s)" by (rule keeps_exec)
  moreover have "keeps (exec e c s) (run e cs (exec e c s))" by (rule Cons.IH)
  ultimately show ?case by (simp add: keeps_trans)
qed

lemma keeps_invariant: "keeps s s' \<Longrightarrow> endpoints_imply_token s \<Longrightarrow> endpoints_imply_token s'"
  unfolding keeps_def endpoints_imply_token_def by metis

lemma constructor_invariant: "endpoints_imply_token (constructor e dt)"
  by (simp add: endpoints_imply_token_def constructor_def)

lemma reachable_invariant: "reachable e s \<Longrightarrow> endpoints_imply_token s"
  unfolding reachable_def using keeps_invariant [OF keeps_run constructor_invariant] by blast

lemma keeps_storageUrl:
  "keeps s s' \<Longrightarrow> if_truthy (storageUrl s) = Some u \<Longrightarrow> if_truthy (storageUrl s') = Some u"
  by (auto simp: keeps_def if_truthy_Some)

lemma keeps_notificationUrl:
  "keeps s s' \<Longrightarrow> if_truthy (notificationUrl s) = Some u
     \<Longrightarrow> if_truthy (notificationUrl s') = Some u"
  by (auto simp: keeps_def if_truthy_Some)

section \<open>Endpoints are resolved under a truthy token\<close>

lemma resolves_refl [simp]: "resolves s s"
  by (simp add: resolves_def)

lemma resolves_trans: "resolves s s' \<Longrightarrow> resolves s' s'' \<Longrightarrow> resolves s s''"
  unfolding resolves_def by metis

lemma resolves_send_right [simp]: "resolves s (send r s') = resolves s s'"
  by (simp add: resolves_def)

lemma resolves_zip_right [simp]: "resolves s (s'\<lparr>zip_pkg := z\<rparr>) = resolves s s'"
  by (simp add: resolves_def)

lemma resolves_pkg_left [simp]: "resolves (s\<lparr>ids := n, zip_pkg := z\<rparr>) s' = resolves s s'"
  by (simp add: resolves_def)

lemma resolves_getStorageUrl: "resolves s (snd (getStorageUrl e opts s))"
  by (auto simp: resolves_def getStorageUrl_def Let_def split: sum.splits option.splits)

lemma resolves_getNotificationsUrl: "resolves s (snd (getNotificationsUrl e opts s))"
  by (auto simp: resolves_def getNotificationsUrl_def Let_def split: sum.splits option.splits)

lemma getStorageUrl_resolves: "getStorageUrl e opts s = (r, s') \<Longrightarrow> resolves s s'"
  using resolves_getStorageUrl [of s e opts] by simp

lemma resolves_listItems: "resolves s (snd (listItems e d w s))"
  by (auto simp: listItems_def Let_def split: sum.splits prod.splits dest: getStorageUrl_resolves)

lemma listItems_resolves: "listItems e d w s = (r, s') \<Longrightarrow> resolves s s'"
  using resolves_listItems [of s e d w] by simp

lemma resolves_getItemWithId: "resolves s (snd (getItemWithId e i s))"
  by (auto simp: getItemWithId_def split: sum.splits prod.splits dest: listItems_resolves)

lemma getItemWithId_resolves: "getItemWithId e i s = (r, s') \<Longrightarrow> resolves s s'"
  using resolves_getItemWithId [of s e i] by simp

lemma resolves_deleteItem: "resolves s (snd (deleteItem e i v s))"
  by (auto simp: deleteItem_def Let_def split: sum.splits prod.splits list.splits
      dest: getStorageUrl_resolves)

lemma resolves_downloadZip: "resolves s (snd (downloadZip e i s))"
  by (auto simp: downloadZip_def Let_def split: sum.splits prod.splits option.splits
      dest: getItemWithId_resolves)

lemma resolves_uploadZip: "resolves s (snd (uploadZip e n i z s))"
proof (cases "getStorageUrl e no_options s")
  case (Pair r s1)
  then have k1: "resolves s s1" by (rule getStorageUrl_resolves)
  have k2: "resolves s s3"
    if "getStorageUrl e no_options (send r2 (send r1 s1)) = (r', s3)" for r1 r2 r' s3
  proof -
    have "resolves (send r2 (send r1 s1)) s3" using that by (rule getStorageUrl_resolves)
    moreover have "resolves s (send r2 (send r1 s1))" using k1 by simp
    ultimately show ?thesis by (rule resolves_trans [rotated])
  qed
  show ?thesis
    using Pair k1 k2
    by (auto simp: uploadZip_def Let_def split: sum.splits prod.splits list.splits)
qed

lemma uploadZip_resolves: "uploadZip e n i z s = (r, s') \<Longrightarrow> resolves s s'"
  using resolves_uploadZip [of s e n i z] by simp

lemma resolves_uploadPDF: "resolves s (snd (uploadPDF e n f s))"
  by (auto simp: uploadPDF_def Let_def split: sum.splits prod.splits dest!: uploadZip_resolves)

lemma resolves_live: "resolves s s' \<Longrightarrow> endpoints_imply_live_token s \<Longrightarrow> endpoints_imply_live_token s'"
  unfolding resolves_def endpoints_imply_live_token_def by metis

lemma refreshToken_live:
  "nonempty_tokens e \<Longrightarrow> endpoints_imply_live_token s
     \<Longrightarrow> endpoints_imply_live_token (snd (refreshToken e s))"
  by (auto simp: nonempty_tokens_def endpoints_imply_live_token_def refreshToken_def Let_def
      split: sum.splits)

lemma register_live:
  "nonempty_tokens e \<Longrightarrow> endpoints_imply_live_token s
     \<Longrightarrow> endpoints_imply_live_token (snd (register e c d i s))"
  by (auto simp: nonempty_tokens_def endpoints_imply_live_token_def register_def
      refreshToken_def Let_def split: sum.splits prod.splits)

lemma exec_live:
  assumes "nonempty_tokens e" and "endpoints_imply_live_token s"
  shows "endpoints_imply_live_token (exec e c s)"
proof (cases c)
  case (Register code deviceDesc deviceId)
  then show ?thesis using assms by (simp add: register_live)
next
  case RefreshToken
  then show ?thesis using assms by (simp add: refreshToken_live)
next
  case (GetStorageUrl opts)
  then show ?thesis using resolves_live [OF resolves_getStorageUrl assms(2)] by simp
next
  case (GetNotificationsUrl opts)
  then show ?thesis using resolves_live [OF resolves_getNotificationsUrl assms(2)] by simp
next
  case (GetItemWithId i)
  then show ?thesis using resolves_live [OF resolves_getItemWithId assms(2)] by simp
next
  case GetAllItems
  then show ?thesis using resolves_live [OF resolves_listItems assms(2)]
    by (simp add: getAllItems_def)
next
  case (DeleteItem i v)
  then show ?thesis using resolves_live [OF resolves_deleteItem assms(2)] by simp
next
  case (DownloadZip i)
  then show ?thesis using resolves_live [OF resolves_downloadZip assms(2)] by simp
next
  case (UploadZip name i zipFile)
  then show ?thesis using resolves_live [OF resolves_uploadZip assms(2)] by simp
next
  case (UploadPDF name f)
  then show ?thesis using resolves_live [OF resolves_uploadPDF assms(2)] by simp
qed

lemma run_live:
  "nonempty_tokens e \<Longrightarrow> endpoints_imply_live_token s
     \<Longrightarrow> endpoints_imply_live_token (run e cs s)"
  by (induction cs arbitrary: s) (simp_all add: exec_live)

lemma constructor_live: "endpoints_imply_live_token (constructor e dt)"
  by (simp add: endpoints_imply_live_token_def constructor_def)

lemma reachable_live:
  "nonempty_tokens e \<Longrightarrow> reachable e s \<Longrightarrow> endpoints_imply_live_token s"
  unfolding reachable_def using run_live [OF _ constructor_live] by blast

lemma nonempty_tokens_service: "nonempty_tokens service"
  by (simp add: nonempty_tokens_def service_fields)

section \<open>Endpoint resolution\<close>

lemma getStorageUrl_cached:
  "if_truthy (storageUrl s) = Some u \<Longrightarrow> getStorageUrl e opts s = (Inr u, s)"
  by (simp add: getStorageUrl_def)

lemma getNotificationsUrl_cached:
  "if_truthy (notificationUrl s) = Some u \<Longrightarrow> getNotificationsUrl e opts s = (Inr u, s)"
  by (simp add: getNotificationsUrl_def)

lemma getStorageUrl_caches:
  "getStorageUrl e opts s = (Inr u, s1) \<Longrightarrow> if_truthy (storageUrl s1) = Some u"
  by (auto simp: getStorageUrl_def Let_def if_truthy_Some split: option.splits if_splits sum.splits)

lemma getNotificationsUrl_caches:
  "getNotificationsUrl e opts s = (Inr u, s1) \<Longrightarrow> if_truthy (notificationUrl s1) = Some u"
  by (auto simp: getNotificationsUrl_def Let_def if_truthy_Some
      split: option.splits if_splits sum.splits)

lemma getStorageUrl_unauthenticated:
  "storageUrl s = None \<Longrightarrow> \<not> truthy (token s)
     \<Longrightarrow> getStorageUrl e opts s = (Inl AuthenticationRequiredError, s)"
  by (simp add: getStorageUrl_def if_truthy_def)

lemma getNotificationsUrl_unauthenticated:
  "notificationUrl s = None \<Longrightarrow> \<not> truthy (token s)
     \<Longrightarrow> getNotificationsUrl e opts s = (Inl AuthenticationRequiredError, s)"
  by (simp add: getNotificationsUrl_def if_truthy_def)

lemma getStorageUrl_errors:
  "getStorageUrl e opts s = (Inl err, s') \<Longrightarrow>
     err = AuthenticationRequiredError \<or> (\<exists>f. err = TransportError f)"
  by (auto simp: getStorageUrl_def Let_def split: option.splits if_splits sum.splits)

lemma listItems_errors:
  "listItems e d w s = (Inl err, s') \<Longrightarrow>
     err = AuthenticationRequiredError \<or> (\<exists>f. err = TransportError f)"
  by (auto simp: listItems_def Let_def split: if_splits prod.splits sum.splits
      dest: getStorageUrl_errors)

lemma getItemWithId_errors:
  "getItemWithId e i s = (Inl err, s') \<Longrightarrow>
     err = AuthenticationRequiredError \<or> (\<exists>f. err = TransportError f)"
  by (auto simp: getItemWithId_def split: prod.splits sum.splits dest: listItems_errors)

section \<open>Requests issued by the directory lookups\<close>

lemma refreshToken_deviceToken: "deviceToken (snd (refreshToken e s)) = deviceToken s"
  by (simp add: refreshToken_def Let_def split: sum.splits)

lemma streams_getStorageUrl:
  "filter is_stream (sent (snd (getStorageUrl e opts s))) = filter is_stream (sent s)"
  by (simp add: getStorageUrl_def Let_def is_stream_def storage_discovery_def
      split: option.splits sum.splits)

lemma streams_listItems:
  "filter is_stream (sent (snd (listItems e d w s))) = filter is_stream (sent s)"
  using streams_getStorageUrl [of e no_options s]
  by (auto simp: listItems_def Let_def is_stream_def list_request_def
      split: prod.splits sum.splits)

lemma streams_getItemWithId:
  "filter is_stream (sent (snd (getItemWithId e i s))) = filter is_stream (sent s)"
  using streams_listItems [of e "Some i" True s]
  by (auto simp: getItemWithId_def split: prod.splits sum.splits)

section \<open>The package of a document\<close>

text \<open>
  On an instance whose package is empty, \<^verbatim>\<open>uploadPDF\<close> hands \<^verbatim>\<open>uploadZip\<close> the archive of
  exactly three entries, named after the identifier it drew; it returns that identifier
  when \<^verbatim>\<open>uploadZip\<close> returns, passes on the error when it throws, and only in the first
  case empties the package.
\<close>

lemma add_pdf_entries_empty:
  "add_pdf_entries i file [] =
     [(i @ ''.content'', StringData (JSON_stringify defaultPDFContent)),
      (i @ ''.pagedata'', ArrayData []),
      (i @ ''.pdf'', BufferData file)]"
  by (simp add: add_pdf_entries_def zip_file_def)

lemma uploadPDF_on_empty_package:
  assumes "truthy (token s)" and "zip_pkg s = []"
  shows "uploadPDF e name file s =
     (case uploadZip e name (uuidv4 e (ids s))
             (generateAsync e
                [(uuidv4 e (ids s) @ ''.content'', StringData (JSON_stringify defaultPDFContent)),
                 (uuidv4 e (ids s) @ ''.pagedata'', ArrayData []),
                 (uuidv4 e (ids s) @ ''.pdf'', BufferData file)])
             (s\<lparr>ids := Suc (ids s),
                zip_pkg :=
                  [(uuidv4 e (ids s) @ ''.content'', StringData (JSON_stringify defaultPDFContent)),
                   (uuidv4 e (ids s) @ ''.pagedata'', ArrayData []),
                   (uuidv4 e (ids s) @ ''.pdf'', BufferData file)]\<rparr>) of
        (Inl err, s2) \<Rightarrow> (Inl err, s2)
      | (Inr _, s2) \<Rightarrow> (Inr (uuidv4 e (ids s)), s2\<lparr>zip_pkg := []\<rparr>))"
  using assms by (simp add: uploadPDF_def Let_def add_pdf_entries_empty)

lemma JSON_stringify_defaultPDFContent:
  \<open>JSON_stringify defaultPDFContent =
     ''{"extraMetadata":{},"fileType":"pdf","lastOpenedPage":0,"lineHeight":-1,"margins":180,"pageCount":0,"textScale":1,"transform":{}}''\<close>
  by (simp add: defaultPDFContent_def show_int_def quoted_def digits.simps)

lemma failed_upload_fields:
  "token failed_upload = Some ''stok''"
  "storageUrl failed_upload = Some ''https://host.example''"
  "ids failed_upload = 1"
  "map meth (sent failed_upload) = [POST, GET, PUT]"
  "zip_pkg failed_upload =
     [(''id0.content'', StringData (JSON_stringify defaultPDFContent)),
      (''id0.pagedata'', ArrayData []),
      (''id0.pdf'', BufferData [1, 2, 3])]"
  "fst (uploadPDF service ''Report'' [1, 2, 3] (session_of service)) = Inl UploadRequestError"
  by (simp_all add: failed_upload_def uploadPDF_def uploadZip_def getStorageUrl_def
      session_of_service service_fields if_truthy_def Let_def add_pdf_entries_empty
      storage_discovery_def upload_request_def send_def)

section \<open>The upload protocol\<close>

text \<open>
  C1. In \<^verbatim>\<open>uploadZip\<close>, on an instance holding a session token whose storage endpoint
  resolves, when the first element of the request phase's response marks failure or has
  no write URL, the call fails with \<open>UploadRequestError\<close>, and the upload request is the
  last request issued: neither the transfer nor the finalize request is sent.
\<close>

theorem uploadZip_request_phase_rejected:
  assumes "truthy (token s)"
    and "getStorageUrl e no_options s = (Inr u, s1)"
    and "http_slots e (sent s1) (upload_request e u i s1) = Inr (slot # slots)"
    and "\<not> Success slot \<or> \<not> truthy (BlobURLPut slot)"
  shows "uploadZip e name i zipFile s = (Inl UploadRequestError, send (upload_request e u i s1) s1)
    \<and> sent (snd (uploadZip e name i zipFile s)) = sent s1 @ [upload_request e u i s1]"
  using assms by (auto simp: uploadZip_def Let_def)

theorem uploadZip_request_phase_rejected_witness:
  "fst (uploadZip service ''Report'' ''id0'' [1, 2, 3] (session_of service)) = Inl UploadRequestError
   \<and> map meth (sent (snd (uploadZip service ''Report'' ''id0'' [1, 2, 3] (session_of service))))
       = [POST, GET, PUT]"
proof -
  let ?s = "session_of service"
  let ?s1 = "snd (getStorageUrl service no_options ?s)"
  let ?u = "''https://host.example''"
  let ?slot = "\<lparr>ID = ''id0'', Success = False, BlobURLPut = None\<rparr>"
  have h1: "truthy (token ?s)" by (simp add: session_of_service)
  have h2: "getStorageUrl service no_options ?s = (Inr ?u, ?s1)"
    by (simp add: session_of_service getStorageUrl_def if_truthy_def service_fields)
  have len: "map meth (sent ?s1) = [POST, GET]"
    by (simp add: session_of_service getStorageUrl_def if_truthy_def service_fields
        storage_discovery_def send_def)
  have h3: "http_slots service (sent ?s1) (upload_request service ?u ''id0'' ?s1) = Inr (?slot # [])"
    using arg_cong [OF len, of length] by (simp add: service_fields)
  have h4: "\<not> Success ?slot \<or> \<not> truthy (BlobURLPut ?slot)" by simp
  from uploadZip_request_phase_rejected [OF h1 h2 h3 h4, of "''Report''" "[1, 2, 3]"] len
  show ?thesis by (simp add: upload_request_def)
qed

text \<open>
  C2. \<^verbatim>\<open>uploadPDF\<close> is to discard the package whatever the outcome. On the sample
  service the first upload request is refused: the call fails, and the instance still
  holds the three entries of that call, which the next call will find.
\<close>

theorem uploadPDF_failure_retains_package:
  "fst (uploadPDF service ''Report'' [1, 2, 3] (session_of service)) = Inl UploadRequestError
   \<and> map fst (zip_pkg (snd (uploadPDF service ''Report'' [1, 2, 3] (session_of service))))
       = [''id0.content'', ''id0.pagedata'', ''id0.pdf'']"
  using failed_upload_fields(5,6) by (simp add: failed_upload_def)

section \<open>Authorization\<close>

text \<open>
  C3. On a reachable instance that holds no session token, each of \<^verbatim>\<open>listItems\<close>,
  \<^verbatim>\<open>getItemWithId\<close>, \<^verbatim>\<open>getAllItems\<close>, \<^verbatim>\<open>deleteItem\<close>, \<^verbatim>\<open>downloadZip\<close>, \<^verbatim>\<open>uploadZip\<close>,
  \<^verbatim>\<open>uploadPDF\<close>, \<^verbatim>\<open>getStorageUrl\<close> and \<^verbatim>\<open>getNotificationsUrl\<close> fails with
  \<open>AuthenticationRequiredError\<close> and leaves the instance as it was, so that no request
  of any kind is issued.
\<close>

theorem unauthenticated_calls_rejected:
  assumes "reachable e s" and "token s = None"
  shows "listItems e doc withBlob s = (Inl AuthenticationRequiredError, s)
    \<and> getItemWithId e i s = (Inl AuthenticationRequiredError, s)
    \<and> getAllItems e s = (Inl AuthenticationRequiredError, s)
    \<and> deleteItem e i v s = (Inl AuthenticationRequiredError, s)
    \<and> downloadZip e i s = (Inl AuthenticationRequiredError, s)
    \<and> uploadZip e name i zipFile s = (Inl AuthenticationRequiredError, s)
    \<and> uploadPDF e name file s = (Inl AuthenticationRequiredError, s)
    \<and> getStorageUrl e opts s = (Inl AuthenticationRequiredError, s)
    \<and> getNotificationsUrl e opts s = (Inl AuthenticationRequiredError, s)"
proof -
  have "endpoints_imply_token s" using assms(1) by (rule reachable_invariant)
  with assms(2) have none: "storageUrl s = None" "notificationUrl s = None"
    by (auto simp: endpoints_imply_token_def)
  have unauth: "\<not> truthy (token s)" using assms(2) by simp
  have storage: "getStorageUrl e opts' s = (Inl AuthenticationRequiredError, s)" for opts'
    using none(1) unauth by (rule getStorageUrl_unauthenticated)
  have notif: "getNotificationsUrl e opts s = (Inl AuthenticationRequiredError, s)"
    using none(2) unauth by (rule getNotificationsUrl_unauthenticated)
  have list: "listItems e d w s = (Inl AuthenticationRequiredError, s)" for d w
    using unauth by (simp add: listItems_def)
  have item: "getItemWithId e i s = (Inl AuthenticationRequiredError, s)"
    by (simp add: getItemWithId_def list)
  have all: "getAllItems e s = (Inl AuthenticationRequiredError, s)"
    by (simp add: getAllItems_def list)
  have del: "deleteItem e i v s = (Inl AuthenticationRequiredError, s)"
    by (simp add: deleteItem_def storage)
  have down: "downloadZip e i s = (Inl AuthenticationRequiredError, s)"
    using unauth by (simp add: downloadZip_def)
  have up: "uploadZip e name i zipFile s = (Inl AuthenticationRequiredError, s)"
    using unauth by (simp add: uploadZip_def)
  have pdf: "uploadPDF e name file s = (Inl AuthenticationRequiredError, s)"
    using unauth by (simp add: uploadPDF_def)
  show ?thesis using list item all del down up pdf storage notif by simp
qed

theorem unauthenticated_calls_rejected_witness:
  "listItems service None True (constructor service (Some ''dtok''))
     = (Inl AuthenticationRequiredError, constructor service (Some ''dtok''))
   \<and> getItemWithId service ''doc1'' (constructor service (Some ''dtok''))
     = (Inl AuthenticationRequiredError, constructor service (Some ''dtok''))
   \<and> getAllItems service (constructor service (Some ''dtok''))
     = (Inl AuthenticationRequiredError, constructor service (Some ''dtok''))
   \<and> deleteItem service ''doc1'' 3 (constructor service (Some ''dtok''))
     = (Inl AuthenticationRequiredError, constructor service (Some ''dtok''))
   \<and> downloadZip service ''doc1'' (constructor service (Some ''dtok''))
     = (Inl AuthenticationRequiredError, constructor service (Some ''dtok''))
   \<and> uploadZip service ''Report'' ''doc1'' [1, 2, 3] (constructor service (Some ''dtok''))
     = (Inl AuthenticationRequiredError, constructor service (Some ''dtok''))
   \<and> uploadPDF service ''Report'' [1, 2, 3] (constructor service (Some ''dtok''))
     = (Inl AuthenticationRequiredError, constructor service (Some ''dtok''))
   \<and> getStorageUrl service no_options (constructor service (Some ''dtok''))
     = (Inl AuthenticationRequiredError, constructor service (Some ''dtok''))
   \<and> getNotificationsUrl service no_options (constructor service (Some ''dtok''))
     = (Inl AuthenticationRequiredError, constructor service (Some ''dtok''))
   \<and> sent (constructor service (Some ''dtok'')) = []"
proof -
  let ?s = "constructor service (Some ''dtok'')"
  have r: "reachable service ?s" by (rule reachable_constructor)
  have t: "token ?s = None" by (simp add: constructor_def)
  have n: "sent ?s = []" by (simp add: constructor_def)
  from unauthenticated_calls_rejected [OF r t] n show ?thesis by blast
qed

text \<open>
  C4. Once \<^verbatim>\<open>getStorageUrl\<close> (or \<^verbatim>\<open>getNotificationsUrl\<close>) has returned an endpoint, then
  after any sequence of further calls, \<^verbatim>\<open>refreshToken\<close> among them, the cached field is
  unchanged and a new call, with any options, returns the same endpoint and leaves the
  instance as it is: no request is issued.
\<close>

theorem endpoints_resolved_once:
  "(getStorageUrl e opts s = (Inr u, s1) \<longrightarrow>
      storageUrl (run e cs s1) = storageUrl s1 \<and>
      getStorageUrl e opts' (run e cs s1) = (Inr u, run e cs s1)) \<and>
   (getNotificationsUrl e opts s = (Inr w, s2) \<longrightarrow>
      notificationUrl (run e cs s2) = notificationUrl s2 \<and>
      getNotificationsUrl e opts' (run e cs s2) = (Inr w, run e cs s2))"
proof (intro conjI impI)
  assume "getStorageUrl e opts s = (Inr u, s1)"
  then have c: "if_truthy (storageUrl s1) = Some u" by (rule getStorageUrl_caches)
  have k: "keeps s1 (run e cs s1)" by (rule keeps_run)
  from k c show "storageUrl (run e cs s1) = storageUrl s1"
    by (auto simp: keeps_def if_truthy_Some)
  from k c have "if_truthy (storageUrl (run e cs s1)) = Some u" by (rule keeps_storageUrl)
  then show "getStorageUrl e opts' (run e cs s1) = (Inr u, run e cs s1)"
    by (rule getStorageUrl_cached)
next
  assume "getNotificationsUrl e opts s = (Inr w, s2)"
  then have c: "if_truthy (notificationUrl s2) = Some w" by (rule getNotificationsUrl_caches)
  have k: "keeps s2 (run e cs s2)" by (rule keeps_run)
  from k c show "notificationUrl (run e cs s2) = notificationUrl s2"
    by (auto simp: keeps_def if_truthy_Some)
  from k c have "if_truthy (notificationUrl (run e cs s2)) = Some w"
    by (rule keeps_notificationUrl)
  then show "getNotificationsUrl e opts' (run e cs s2) = (Inr w, run e cs s2)"
    by (rule getNotificationsUrl_cached)
qed

theorem endpoints_resolved_once_witness:
  "getStorageUrl service no_options (run service [RefreshToken, GetAllItems] resolved_session)
     = (Inr ''https://host.example'', run service [RefreshToken, GetAllItems] resolved_session)
   \<and> getNotificationsUrl service no_options
      (run service [RefreshToken, GetAllItems]
         (snd (getNotificationsUrl service no_options (session_of service))))
     = (Inr ''wss://host.example'',
        run service [RefreshToken, GetAllItems]
          (snd (getNotificationsUrl service no_options (session_of service))))"
  using endpoints_resolved_once [of service no_options "session_of service"
      "''https://host.example''" resolved_session
      "[RefreshToken, GetAllItems]" no_options
      "''wss://host.example''" "snd (getNotificationsUrl service no_options (session_of service))"]
    storage_of_session notifications_of_session
  by blast

text \<open>
  C5. When the registration request succeeds with a device token, that token is stored
  on the instance whatever the dependent refresh does; and whenever the refresh fails,
  \<^verbatim>\<open>register\<close> fails with the same error while the device token stays stored.
\<close>

theorem register_keeps_device_token:
  assumes "code \<noteq> []"
    and "http_text e (sent s) (register_request e code deviceDesc deviceId) = Inr b"
  shows "deviceToken (snd (register e code deviceDesc deviceId s)) = Some b
    \<and> (\<forall>err s'. refreshToken e
          ((send (register_request e code deviceDesc deviceId) s)\<lparr>deviceToken := Some b\<rparr>)
            = (Inl err, s')
        \<longrightarrow> register e code deviceDesc deviceId s = (Inl err, s') \<and> deviceToken s' = Some b)"
proof -
  let ?s1 = "(send (register_request e code deviceDesc deviceId) s)\<lparr>deviceToken := Some b\<rparr>"
  have d: "deviceToken (snd (refreshToken e ?s1)) = Some b"
    by (simp add: refreshToken_deviceToken)
  have r: "register e code deviceDesc deviceId s =
      (case refreshToken e ?s1 of (Inl err, s') \<Rightarrow> (Inl err, s') | (Inr _, s') \<Rightarrow> (Inr b, s'))"
    using assms by (simp add: register_def Let_def)
  show ?thesis using d by (auto simp: r split: prod.splits sum.splits)
qed

theorem register_keeps_device_token_witness:
  "fst (register refresh_down ''ABC123'' None None (constructor refresh_down None))
     = Inl (TransportError ''ETIMEDOUT'')
   \<and> deviceToken (snd (register refresh_down ''ABC123'' None None (constructor refresh_down None)))
     = Some ''dtok''"
proof -
  let ?s = "constructor refresh_down None"
  let ?r = "register_request refresh_down ''ABC123'' None None"
  let ?s1 = "(send ?r ?s)\<lparr>deviceToken := Some ''dtok''\<rparr>"
  have h1: "''ABC123'' \<noteq> []" by simp
  have h2: "http_text refresh_down (sent ?s) ?r = Inr ''dtok''"
    by (simp add: refresh_down_def register_request_def)
  have h3: "refreshToken refresh_down ?s1 = (Inl (TransportError ''ETIMEDOUT''), snd (refreshToken refresh_down ?s1))"
    by (simp add: refreshToken_def refresh_down_def)
  from register_keeps_device_token [OF h1 h2] h3
  have a: "deviceToken (snd (register refresh_down ''ABC123'' None None ?s)) = Some ''dtok''"
    and b: "register refresh_down ''ABC123'' None None ?s
      = (Inl (TransportError ''ETIMEDOUT''), snd (refreshToken refresh_down ?s1))"
    by blast+
  from a show ?thesis by (simp add: b)
qed

section \<open>Directory and download\<close>

text \<open>
  C6. When the storage endpoint resolves and the service answers the delete request
  with a list of results, \<^verbatim>\<open>deleteItem\<close> returns the success flag of the first result; a
  refusal is the returned value \<open>False\<close>, not a thrown error.
\<close>

theorem deleteItem_returns_success_flag:
  assumes "getStorageUrl e no_options s = (Inr u, s1)"
    and "http_results e (sent s1) (delete_request u i v s1) = Inr (res # rest)"
  shows "deleteItem e i v s = (Inr (Success res), send (delete_request u i v s1) s1)
    \<and> (\<not> Success res \<longrightarrow> fst (deleteItem e i v s) = Inr False)"
  using assms by (simp add: deleteItem_def Let_def)

theorem deleteItem_returns_success_flag_witness:
  "fst (deleteItem service ''doc1'' 2 (session_of service)) = Inr False"
proof -
  let ?s1 = resolved_session
  have h2: "http_results service (sent ?s1) (delete_request ''https://host.example'' ''doc1'' 2 ?s1)
      = Inr (\<lparr>ID = ''doc1'', Success = False\<rparr> # [])"
    by (simp add: service_fields delete_request_def)
  from deleteItem_returns_success_flag [OF storage_of_session h2] show ?thesis by simp
qed

text \<open>
  C7. When the directory lookup of \<^verbatim>\<open>downloadZip\<close> finds an item whose \<^verbatim>\<open>BlobURLGet\<close> is
  missing or empty, the call fails with \<open>BlobNotFoundError\<close> in the state the lookup
  left, and the requests issued hold no stream request beyond those issued before.
\<close>

theorem downloadZip_without_blob_reference:
  assumes "truthy (token s)"
    and "getItemWithId e i s = (Inr (Some item), s1)"
    and "\<not> truthy (BlobURLGet item)"
  shows "downloadZip e i s = (Inl BlobNotFoundError, s1)
    \<and> filter is_stream (sent (snd (downloadZip e i s))) = filter is_stream (sent s)"
proof -
  have d: "downloadZip e i s = (Inl BlobNotFoundError, s1)"
    using assms by (simp add: downloadZip_def)
  have "filter is_stream (sent s1) = filter is_stream (sent s)"
    using streams_getItemWithId [of e i s] assms(2) by simp
  with d show ?thesis by simp
qed

theorem downloadZip_without_blob_reference_witness:
  "fst (downloadZip service ''doc1'' (session_of service)) = Inl BlobNotFoundError
   \<and> filter is_stream (sent (snd (downloadZip service ''doc1'' (session_of service)))) = []"
proof -
  let ?item = "\<lparr>ID = ''doc1'', Success = True, Version = 3, VissibleName = ''Notes'',
                 BlobURLGet = None\<rparr>"
  have h1: "truthy (token (session_of service))" by (simp add: token_session)
  have h3: "\<not> truthy (BlobURLGet ?item)" by simp
  have none: "filter is_stream (sent (session_of service)) = []"
    by (simp add: session_of_service is_stream_def)
  from downloadZip_without_blob_reference [OF h1 item_of_session h3]
  have ab: "downloadZip service ''doc1'' (session_of service)
      = (Inl BlobNotFoundError,
         send (list_request service ''https://host.example'' (Some ''doc1'') True resolved_session)
           resolved_session)"
    and b: "filter is_stream (sent (snd (downloadZip service ''doc1'' (session_of service))))
      = filter is_stream (sent (session_of service))"
    by blast+
  from ab have "fst (downloadZip service ''doc1'' (session_of service)) = Inl BlobNotFoundError"
    by (simp only: fst_conv)
  moreover from b none
  have "filter is_stream (sent (snd (downloadZip service ''doc1'' (session_of service)))) = []"
    by (rule trans)
  ultimately show ?thesis by blast
qed

text \<open>
  C8. \<^verbatim>\<open>uploadPDF\<close> is to build a package of exactly three entries named after the
  fresh identifier. After the refused upload of the sample service the package of the
  next call has six entries, three of them of the earlier call; the call succeeds,
  returns its own identifier, and the archive it transfers is the one of six entries.
\<close>

theorem uploadPDF_after_failure_packs_stale_entries:
  "map fst (add_pdf_entries (uuidv4 service (ids failed_upload)) [4, 5] (zip_pkg failed_upload))
     = [''id0.content'', ''id0.pagedata'', ''id0.pdf'',
        ''id1.content'', ''id1.pagedata'', ''id1.pdf'']
   \<and> fst (uploadPDF service ''Second'' [4, 5] failed_upload) = Inr ''id1''
   \<and> map body (filter (\<lambda>r. url r = ''https://blob.example/put'')
         (sent (snd (uploadPDF service ''Second'' [4, 5] failed_upload))))
       = [Raw [6]]"
proof -
  have pkg: "add_pdf_entries ''id1'' [4, 5]
       [(''id0.content'', StringData (JSON_stringify defaultPDFContent)),
        (''id0.pagedata'', ArrayData []),
        (''id0.pdf'', BufferData [1, 2, 3])] =
     [(''id0.content'', StringData (JSON_stringify defaultPDFContent)),
      (''id0.pagedata'', ArrayData []),
      (''id0.pdf'', BufferData [1, 2, 3]),
      (''id1.content'', StringData (JSON_stringify defaultPDFContent)),
      (''id1.pagedata'', ArrayData []),
      (''id1.pdf'', BufferData [4, 5])]"
    by (simp add: add_pdf_entries_def zip_file_def)
  have id: "uuidv4 service (ids failed_upload) = ''id1''"
    by (simp add: failed_upload_fields service_fields)
  have a: "map fst (add_pdf_entries (uuidv4 service (ids failed_upload)) [4, 5]
      (zip_pkg failed_upload))
     = [''id0.content'', ''id0.pagedata'', ''id0.pdf'',
        ''id1.content'', ''id1.pagedata'', ''id1.pdf'']"
    by (simp add: pkg failed_upload_fields service_fields)
  have len: "length (sent failed_upload) = 3"
    using arg_cong [OF failed_upload_fields(4), of length] by simp
  have old: "filter (\<lambda>r. url r = ''https://blob.example/put'') (sent failed_upload) = []"
    by (simp add: failed_upload_def uploadPDF_def uploadZip_def getStorageUrl_def
      session_of_service service_fields if_truthy_def Let_def add_pdf_entries_empty
      storage_discovery_def upload_request_def send_def)
  have b: "fst (uploadPDF service ''Second'' [4, 5] failed_upload) = Inr ''id1''"
    by (simp add: uploadPDF_def uploadZip_def getStorageUrl_def failed_upload_fields id pkg len
        if_truthy_def Let_def service_fields update_status_request_def)
  have c: "map body (filter (\<lambda>r. url r = ''https://blob.example/put'')
         (sent (snd (uploadPDF service ''Second'' [4, 5] failed_upload)))) = [Raw [6]]"
    by (simp add: uploadPDF_def uploadZip_def getStorageUrl_def failed_upload_fields id pkg len
        old if_truthy_def Let_def service_fields update_status_request_def upload_request_def
        transfer_request_def template_def)
  from a b c show ?thesis by blast
qed

section \<open>The instance invariant\<close>

text \<open>
  C9. A cached endpoint comes with a session token: this holds of a freshly
  constructed instance, every call preserves it, and so it holds of every reachable
  instance. The token is then assigned; it is moreover truthy on every reachable
  instance when the token exchange never answers with an empty string.
\<close>

theorem endpoint_requires_session_token:
  "endpoints_imply_token (constructor e dt) \<and>
   (endpoints_imply_token s \<longrightarrow> endpoints_imply_token (exec e c s)) \<and>
   (reachable e s' \<longrightarrow> endpoints_imply_token s') \<and>
   (nonempty_tokens e \<and> reachable e s' \<longrightarrow> endpoints_imply_live_token s')"
  using constructor_invariant keeps_invariant [OF keeps_exec] reachable_invariant
    reachable_live
  by blast

theorem endpoint_requires_session_token_witness:
  "reachable service
      (run service [RefreshToken, GetStorageUrl no_options] (constructor service (Some ''dtok'')))
   \<and> storageUrl
      (run service [RefreshToken, GetStorageUrl no_options] (constructor service (Some ''dtok'')))
       = Some ''https://host.example''
   \<and> token
      (run service [RefreshToken, GetStorageUrl no_options] (constructor service (Some ''dtok'')))
       \<noteq> None
   \<and> truthy (token
      (run service [RefreshToken, GetStorageUrl no_options] (constructor service (Some ''dtok''))))"
proof -
  let ?s = "run service [RefreshToken, GetStorageUrl no_options] (constructor service (Some ''dtok''))"
  have r: "reachable service ?s" by (rule reachable_run [OF reachable_constructor])
  have "?s = resolved_session"
    by (simp add: session_of_def resolved_session_def)
  then have u: "storageUrl ?s = Some ''https://host.example''"
    by (simp add: resolved_session_fields)
  from endpoint_requires_session_token [of service None ?s RefreshToken ?s]
    r nonempty_tokens_service
  have "endpoints_imply_token ?s" and "endpoints_imply_live_token ?s" by blast+
  with u have "token ?s \<noteq> None" and "truthy (token ?s)"
    by (simp_all add: endpoints_imply_token_def endpoints_imply_live_token_def)
  with r u show ?thesis by blast
qed

text \<open>
  C10. When the listing for an identifier is empty, \<^verbatim>\<open>getItemWithId\<close> returns
  \<^verbatim>\<open>undefined\<close> and \<^verbatim>\<open>downloadZip\<close> fails with a \<^verbatim>\<open>TypeError\<close> from the destructuring, which
  is not \<open>BlobNotFoundError\<close>; and whenever \<^verbatim>\<open>downloadZip\<close> does fail with
  \<open>BlobNotFoundError\<close>, the lookup had returned an item.
\<close>

theorem downloadZip_of_missing_item:
  "(truthy (token s) \<and> listItems e (Some i) True s = (Inr [], s1) \<longrightarrow>
      getItemWithId e i s = (Inr None, s1) \<and>
      downloadZip e i s =
        (Inl (TypeError ''Cannot destructure property 'BlobURLGet' of undefined''), s1) \<and>
      fst (downloadZip e i s) \<noteq> Inl BlobNotFoundError) \<and>
   (downloadZip e i s = (Inl BlobNotFoundError, s2) \<longrightarrow>
      (\<exists>item. getItemWithId e i s = (Inr (Some item), s2) \<and> \<not> truthy (BlobURLGet item)))"
proof (intro conjI impI)
  assume a: "truthy (token s) \<and> listItems e (Some i) True s = (Inr [], s1)"
  then show g: "getItemWithId e i s = (Inr None, s1)" by (simp add: getItemWithId_def)
  with a show d: "downloadZip e i s =
      (Inl (TypeError ''Cannot destructure property 'BlobURLGet' of undefined''), s1)"
    by (simp add: downloadZip_def)
  then show "fst (downloadZip e i s) \<noteq> Inl BlobNotFoundError"
    by (simp add: BlobNotFoundError_def)
next
  assume "downloadZip e i s = (Inl BlobNotFoundError, s2)"
  then show "\<exists>item. getItemWithId e i s = (Inr (Some item), s2) \<and> \<not> truthy (BlobURLGet item)"
    by (auto simp: downloadZip_def Let_def BlobNotFoundError_def AuthenticationRequiredError_def
        split: if_splits prod.splits sum.splits option.splits dest: getItemWithId_errors)
qed

theorem downloadZip_of_missing_item_witness:
  "fst (getItemWithId empty_listing ''doc1'' (session_of empty_listing)) = Inr None
   \<and> fst (downloadZip empty_listing ''doc1'' (session_of empty_listing))
       = Inl (TypeError ''Cannot destructure property 'BlobURLGet' of undefined'')
   \<and> fst (downloadZip empty_listing ''doc1'' (session_of empty_listing)) \<noteq> Inl BlobNotFoundError
   \<and> (\<exists>item. fst (getItemWithId service ''doc1'' (session_of service)) = Inr (Some item)
         \<and> \<not> truthy (BlobURLGet item))"
proof -
  let ?s = "session_of empty_listing"
  let ?s1 = "snd (listItems empty_listing (Some ''doc1'') True ?s)"
  have t: "token ?s = Some ''stok''" "storageUrl ?s = None"
    by (simp_all add: session_defs empty_listing_fields service_fields)
  have h: "truthy (token ?s) \<and> listItems empty_listing (Some ''doc1'') True ?s = (Inr [], ?s1)"
    by (simp add: t listItems_def getStorageUrl_def if_truthy_def empty_listing_fields
        service_fields Let_def)
  have d: "downloadZip service ''doc1'' (session_of service)
      = (Inl BlobNotFoundError, snd (downloadZip service ''doc1'' (session_of service)))"
    by (simp add: downloadZip_def token_session item_of_session)
  from downloadZip_of_missing_item [of ?s empty_listing "''doc1''" ?s1 ?s1] h
  have a: "getItemWithId empty_listing ''doc1'' ?s = (Inr None, ?s1)"
    and b: "downloadZip empty_listing ''doc1'' ?s
      = (Inl (TypeError ''Cannot destructure property 'BlobURLGet' of undefined''), ?s1)"
    and c: "fst (downloadZip empty_listing ''doc1'' ?s) \<noteq> Inl BlobNotFoundError"
    by blast+
  from downloadZip_of_missing_item [of "session_of service" service "''doc1''" ?s1
      "snd (downloadZip service ''doc1'' (session_of service))"] d
  have e: "\<exists>item. getItemWithId service ''doc1'' (session_of service)
        = (Inr (Some item), snd (downloadZip service ''doc1'' (session_of service)))
      \<and> \<not> truthy (BlobURLGet item)"
    by blast
  from a have "fst (getItemWithId empty_listing ''doc1'' ?s) = Inr None"
    by (simp only: fst_conv)
  moreover from b have "fst (downloadZip empty_listing ''doc1'' ?s)
      = Inl (TypeError ''Cannot destructure property 'BlobURLGet' of undefined'')"
    by (simp only: fst_conv)
  moreover from e have "\<exists>item. fst (getItemWithId service ''doc1'' (session_of service))
      = Inr (Some item) \<and> \<not> truthy (BlobURLGet item)"
    by force
  ultimately show ?thesis using c by blast
qed

end
